theory Spec2Isabelle
  imports
    Complex_Main
    "HOL-Library.Char_ord"
    "HOL-Library.List_Lexorder"
    "HOL-Library.Product_Lexorder"
begin

section \<open>Transaction records and the data generator\<close>

text \<open>
  The program under study is \<^verbatim>\<open>firstproject.py\<close>, an expense tracker built on
  \<^verbatim>\<open>random\<close>, Faker, pandas, sqlite3 and Streamlit. The functions of the file are
  embedded below one by one, with their names. The libraries are not part of the file;
  each library call is modelled by a definition of its own whose comment says so.

  One dictionary appended to \<^verbatim>\<open>data\<close> in \<^verbatim>\<open>generate_data\<close> is a record with the
  seven keys of the source. Python floats are modelled as exact real numbers.
\<close>

record txn =
  Date :: string
  Category :: string
  Payment_Mode :: string
  Description :: string
  Amount_Paid :: real
  Cashback :: real
  Month :: string

definition categories :: "string list" where
  "categories =
     [''Food'', ''Transportation'', ''Bills'', ''Groceries'', ''Entertainment'',
      ''Healthcare'', ''Shopping'', ''Travel'', ''Dining'', ''Subscriptions'']"

definition payment_modes :: "string list" where
  "payment_modes =
     [''Cash'', ''Wallet'', ''Credit Card'', ''Debit Card'', ''UPI'', ''Netbanking'']"

subsection \<open>The random sources\<close>

text \<open>
  The generator of \<^verbatim>\<open>random\<close> is a parameter: an infinite sequence \<open>g\<close> of raw
  draws, read at a position that every call advances by one. \<^verbatim>\<open>random.random()\<close>
  returns a multiple of \<open>2^-53\<close> in \<open>[0, 1)\<close>, \<^verbatim>\<open>random.uniform(a, b)\<close> is
  \<^verbatim>\<open>a + (b - a) * random()\<close>, and \<^verbatim>\<open>random.choice(seq)\<close> indexes \<open>seq\<close> below its
  length. \<^verbatim>\<open>round(x, 2)\<close> rounds to the nearest hundredth, ties to even.
  Faker's two calls are parameters as well, each a function of one raw draw.
\<close>

type_synonym rng = "nat \<Rightarrow> nat"

record faker =
  date_this_year :: "nat \<Rightarrow> string"
  text30 :: "nat \<Rightarrow> string"

definition random01 :: "nat \<Rightarrow> real" where
  "random01 k = of_nat (k mod 2 ^ 53) / 2 ^ 53"

definition uniform :: "real \<Rightarrow> real \<Rightarrow> nat \<Rightarrow> real" where
  "uniform a b k = a + (b - a) * random01 k"

definition choice :: "'a list \<Rightarrow> nat \<Rightarrow> 'a" where
  "choice xs k = xs ! (k mod length xs)"

definition round_half_even :: "real \<Rightarrow> int" where
  "round_half_even y =
     (let f = \<lfloor>y\<rfloor>; d = y - of_int f
      in if d < 1 / 2 then f
         else if 1 / 2 < d then f + 1
         else if even f then f else f + 1)"

definition round2 :: "real \<Rightarrow> real" where
  "round2 x = of_int (round_half_even (x * 100)) / 100"

subsection \<open>generate_data\<close>

text \<open>
  One pass of the loop body builds one dictionary from six consecutive draws, in the
  order in which the source evaluates the dictionary's values.
\<close>

definition make_row :: "faker \<Rightarrow> rng \<Rightarrow> nat \<Rightarrow> string \<Rightarrow> txn" where
  "make_row fake g p month =
     \<lparr> Date = date_this_year fake (g p),
       Category = choice categories (g (p + 1)),
       Payment_Mode = choice payment_modes (g (p + 2)),
       Description = text30 fake (g (p + 3)),
       Amount_Paid = round2 (uniform 50 1000 (g (p + 4))),
       Cashback = round2 (uniform 0 50 (g (p + 5))),
       Month = month \<rparr>"

text \<open>The loop \<^verbatim>\<open>for _ in range(n): data.append({...})\<close>, started at position \<open>p\<close>.\<close>

fun gen_rows :: "faker \<Rightarrow> rng \<Rightarrow> nat \<Rightarrow> string \<Rightarrow> nat \<Rightarrow> txn list" where
  "gen_rows fake g p month 0 = []"
| "gen_rows fake g p month (Suc n) =
     make_row fake g p month # gen_rows fake g (p + 6) month n"


subsection \<open>Data frames\<close>

text \<open>
  A pandas \<^verbatim>\<open>DataFrame\<close> is a list of column labels and a list of rows of cells.
  \<^verbatim>\<open>pd.DataFrame(data)\<close> of a list of dictionaries takes its columns from the
  dictionaries' keys, so the frame of an empty list has no columns at all.
\<close>

datatype cell = Null | Num real | Text string

record frame =
  df_columns :: "string list"
  df_rows :: "cell list list"

definition txn_keys :: "string list" where
  "txn_keys =
     [''Date'', ''Category'', ''Payment_Mode'', ''Description'', ''Amount_Paid'',
      ''Cashback'', ''Month'']"

definition txn_cells :: "txn \<Rightarrow> cell list" where
  "txn_cells r =
     [Text (Date r), Text (Category r), Text (Payment_Mode r), Text (Description r),
      Num (Amount_Paid r), Num (Cashback r), Text (Month r)]"

definition DataFrame :: "txn list \<Rightarrow> frame" where
  "DataFrame data =
     \<lparr> df_columns = (if data = [] then [] else txn_keys),
       df_rows = map txn_cells data \<rparr>"

text \<open>
  \<^verbatim>\<open>generate_data(month, n)\<close>: the frame of the \<open>n\<close> dictionaries, together with the
  position of the random source after the call. The function has no other argument
  and no other result: it neither reads nor writes the database.
\<close>

definition generate_data :: "faker \<Rightarrow> rng \<Rightarrow> nat \<Rightarrow> string \<Rightarrow> nat \<Rightarrow> frame \<times> nat" where
  "generate_data fake g p month n = (DataFrame (gen_rows fake g p month n), p + 6 * n)"

text \<open>Reading cells: by position in a row, and by label, as \<^verbatim>\<open>data[label]\<close> does.\<close>

definition nth_cell :: "cell list \<Rightarrow> nat \<Rightarrow> cell" where
  "nth_cell r i = (if i < length r then r ! i else Null)"

fun col_index :: "(string \<Rightarrow> bool) \<Rightarrow> string list \<Rightarrow> nat option" where
  "col_index P [] = None"
| "col_index P (c # cs) =
     (if P c then Some 0 else map_option Suc (col_index P cs))"

definition column :: "frame \<Rightarrow> string \<Rightarrow> cell list option" where
  "column f label =
     map_option (\<lambda>i. map (\<lambda>r. nth_cell r i) (df_rows f))
       (col_index (\<lambda>c. c = label) (df_columns f))"


section \<open>The store\<close>

text \<open>
  The SQLite file \<^verbatim>\<open>expenses.db\<close> is a catalogue of named tables, in creation order.
  A table has column names and rows of cells; the declared column types are left out
  (SQLite stores a value of any type in any column). SQLite compares table and column
  names without regard to ASCII letter case.
\<close>

record table =
  tbl_columns :: "string list"
  tbl_rows :: "cell list list"

type_synonym db = "(string \<times> table) list"

datatype exc =
    NoSuchTable string
  | NoSuchColumn string
  | TableExists string
  | SyntaxError
  | NoResultSet
  | KeyError string
  | IndexError
  | ValueError

definition lower_char :: "char \<Rightarrow> char" where
  "lower_char c =
     (if 65 \<le> (of_char c :: nat) \<and> (of_char c :: nat) \<le> 90
      then char_of ((of_char c :: nat) + 32) else c)"

definition same_name :: "string \<Rightarrow> string \<Rightarrow> bool" where
  "same_name a b = (map lower_char a = map lower_char b)"

fun lookup_table :: "db \<Rightarrow> string \<Rightarrow> table option" where
  "lookup_table [] name = None"
| "lookup_table ((k, t) # rest) name =
     (if same_name k name then Some t else lookup_table rest name)"

definition update_table :: "string \<Rightarrow> table \<Rightarrow> db \<Rightarrow> db" where
  "update_table name t' d = map (\<lambda>(k, t). if same_name k name then (k, t') else (k, t)) d"

definition row_count :: "db \<Rightarrow> string \<Rightarrow> nat" where
  "row_count d name = (case lookup_table d name of None \<Rightarrow> 0 | Some t \<Rightarrow> length (tbl_rows t))"


subsection \<open>The SQL statements the program issues\<close>

text \<open>
  \<^verbatim>\<open>CREATE TABLE IF NOT EXISTS name (cols)\<close>: nothing happens when a table of that
  name exists; otherwise an empty table is added.
\<close>

definition create_table_if_not_exists :: "string \<Rightarrow> string list \<Rightarrow> db \<Rightarrow> db" where
  "create_table_if_not_exists name cols d =
     (case lookup_table d name of
        Some t \<Rightarrow> d
      | None \<Rightarrow> d @ [(name, \<lparr> tbl_columns = cols, tbl_rows = [] \<rparr>)])"

text \<open>
  \<^verbatim>\<open>CREATE TABLE name (cols)\<close>: an empty column list is a syntax error, an existing
  table of that name an error too.
\<close>

definition create_table :: "string \<Rightarrow> string list \<Rightarrow> db \<Rightarrow> exc + db" where
  "create_table name cols d =
     (if cols = [] then Inl SyntaxError
      else case lookup_table d name of
        Some t \<Rightarrow> Inl (TableExists name)
      | None \<Rightarrow> Inr (d @ [(name, \<lparr> tbl_columns = cols, tbl_rows = [] \<rparr>)]))"

text \<open>
  \<^verbatim>\<open>INSERT INTO name (labels) VALUES (...)\<close>, once per row: every label must be a column
  of the table; a column of the table without a label receives NULL.
\<close>

definition arrange :: "string list \<Rightarrow> string list \<Rightarrow> cell list \<Rightarrow> cell list" where
  "arrange labels cols r =
     map (\<lambda>c. case col_index (same_name c) labels of
                 None \<Rightarrow> Null
               | Some i \<Rightarrow> nth_cell r i) cols"

definition insert_rows :: "string \<Rightarrow> string list \<Rightarrow> cell list list \<Rightarrow> db \<Rightarrow> exc + db" where
  "insert_rows name labels rs d =
     (case lookup_table d name of
        None \<Rightarrow> Inl (NoSuchTable name)
      | Some t \<Rightarrow>
          (case filter (\<lambda>l. col_index (same_name l) (tbl_columns t) = None) labels of
             l # ls \<Rightarrow> Inl (NoSuchColumn l)
           | [] \<Rightarrow>
               Inr (update_table name
                      (t\<lparr> tbl_rows := tbl_rows t @ map (arrange labels (tbl_columns t)) rs \<rparr>) d)))"


subsection \<open>init_db\<close>

definition months :: "string list" where
  "months =
     [''January'', ''February'', ''March'', ''April'', ''May'', ''June'',
      ''July'', ''August'', ''September'', ''October'', ''November'', ''December'']"

text \<open>The columns of the \<^verbatim>\<open>CREATE TABLE\<close> statement in \<^verbatim>\<open>init_db\<close>, in its order.\<close>

definition declared_columns :: "string list" where
  "declared_columns =
     [''Date'', ''Category'', ''Payment_Mode'', ''Description'', ''Amount_Paid'',
      ''Cashback'', ''Month'']"

definition table_name :: "string \<Rightarrow> string" where
  "table_name month = ''expenses_'' @ month"

text \<open>The loop over \<^verbatim>\<open>months\<close>, one statement per month, then commit and close.\<close>

definition init_db :: "db \<Rightarrow> db" where
  "init_db d =
     fold (\<lambda>month. create_table_if_not_exists (table_name month) declared_columns) months d"

subsection \<open>load_data_to_db\<close>

text \<open>
  \<^verbatim>\<open>DataFrame.to_sql(name, conn, if_exists='append', index=False)\<close>. pandas asks the
  catalogue for a table of exactly that name; when there is none it issues
  \<^verbatim>\<open>CREATE TABLE\<close> with the frame's columns. It then inserts the frame's rows under
  the frame's column labels, issuing no statement for a frame without rows, and commits.
\<close>

definition has_table :: "string \<Rightarrow> db \<Rightarrow> bool" where
  "has_table name d = (name \<in> set (map fst d))"

definition to_sql_append :: "frame \<Rightarrow> string \<Rightarrow> db \<Rightarrow> exc + db" where
  "to_sql_append f name d =
     (case (if has_table name d then Inr d else create_table name (df_columns f) d) of
        Inl e \<Rightarrow> Inl e
      | Inr d1 \<Rightarrow>
          if df_rows f = [] then Inr d1
          else insert_rows name (df_columns f) (df_rows f) d1)"

definition load_data_to_db :: "frame \<Rightarrow> string \<Rightarrow> db \<Rightarrow> exc + db" where
  "load_data_to_db data month d = to_sql_append data (table_name month) d"


subsection \<open>query_data\<close>

text \<open>
  SQL text is represented by what SQLite makes of it. Text that parses is its syntax
  tree: a \<open>SELECT *\<close> has an optional filter \<^verbatim>\<open>WHERE col > x\<close>, an optional
  \<^verbatim>\<open>ORDER BY col [DESC]\<close> (\<open>True\<close> for \<open>DESC\<close>) and an optional \<^verbatim>\<open>LIMIT\<close>; a grouped
  \<open>SELECT\<close> lists its \<^verbatim>\<open>GROUP BY\<close> columns and its aggregates with their aliases. Text
  that SQLite cannot parse is \<open>Malformed\<close>. \<open>Spliced tpl month\<close> is the text of the
  template \<open>tpl\<close> with a month pasted in that the model does not parse (see
  \<open>replace_table_name\<close> below); what SQLite does with it is left to the library.
\<close>

datatype agg = Sum_of string | Avg_of string | Count_all

datatype stmt =
    SelectStar string "(string \<times> real) option" "(string \<times> bool) option" "nat option"
  | SelectGrouped string "string list" "(agg \<times> string) list"
      "(string \<times> bool) option" "nat option"
  | DropTable string
  | Malformed
  | Spliced stmt string

text \<open>
  SQLite's order of values: NULL first, then numbers by value, then text byte by byte.
\<close>

fun cell_key :: "cell \<Rightarrow> nat \<times> real \<times> string" where
  "cell_key Null = (0, 0, [])"
| "cell_key (Num a) = (1, a, [])"
| "cell_key (Text s) = (2, 0, s)"

definition where_gt :: "(string \<times> real) option \<Rightarrow> frame \<Rightarrow> exc + frame" where
  "where_gt w f =
     (case w of
        None \<Rightarrow> Inr f
      | Some (c, x) \<Rightarrow>
          (case col_index (same_name c) (df_columns f) of
             None \<Rightarrow> Inl (NoSuchColumn c)
           | Some i \<Rightarrow>
               Inr (f\<lparr> df_rows :=
                      filter (\<lambda>r. cell_key (Num x) < cell_key (nth_cell r i)) (df_rows f) \<rparr>)))"

definition order_by :: "(string \<times> bool) option \<Rightarrow> frame \<Rightarrow> exc + frame" where
  "order_by ob f =
     (case ob of
        None \<Rightarrow> Inr f
      | Some (c, desc) \<Rightarrow>
          (case col_index (same_name c) (df_columns f) of
             None \<Rightarrow> Inl (NoSuchColumn c)
           | Some i \<Rightarrow>
               (let asc = sort_key (\<lambda>r. cell_key (nth_cell r i)) (df_rows f)
                in Inr (f\<lparr> df_rows := (if desc then rev asc else asc) \<rparr>))))"

definition limit :: "nat option \<Rightarrow> frame \<Rightarrow> frame" where
  "limit l f = (case l of None \<Rightarrow> f | Some k \<Rightarrow> f\<lparr> df_rows := take k (df_rows f) \<rparr>)"

definition select_star ::
  "table \<Rightarrow> (string \<times> real) option \<Rightarrow> (string \<times> bool) option \<Rightarrow> nat option \<Rightarrow> exc + frame"
where
  "select_star t w ob l =
     (case where_gt w \<lparr> df_columns = tbl_columns t, df_rows = tbl_rows t \<rparr> of
        Inl e \<Rightarrow> Inl e
      | Inr f1 \<Rightarrow>
          (case order_by ob f1 of
             Inl e \<Rightarrow> Inl e
           | Inr f2 \<Rightarrow> Inr (limit l f2)))"

text \<open>
  What the libraries compute beyond this is a parameter of the model: the result of a
  grouped \<open>SELECT\<close> on an existing table, the result of a spliced text that the model
  does not parse, and whether drawing a chart raises.
\<close>

datatype widget =
    Title string
  | Subheader string
  | Success string
  | Dataframe frame
  | ErrorBox string
  | BarChart frame string
  | LineChart frame string
  | PieChart "cell list" "cell list"

record library =
  sql_grouped :: "stmt \<Rightarrow> table \<Rightarrow> exc + frame"
  sql_spliced :: "stmt \<Rightarrow> string \<Rightarrow> db \<Rightarrow> db \<times> (exc + frame)"
  plot_raises :: "widget \<Rightarrow> exc option"

text \<open>
  \<^verbatim>\<open>pd.read_sql_query(query, conn)\<close> executes the statement and then builds a frame
  from the cursor. A \<^verbatim>\<open>DROP TABLE\<close> is executed and takes effect at once (sqlite3 opens
  no transaction for it); only then does pandas raise, since the cursor has no result
  set. The pair returned is the catalogue after the call and the frame or the exception.
\<close>

definition read_sql_query :: "library \<Rightarrow> stmt \<Rightarrow> db \<Rightarrow> db \<times> (exc + frame)" where
  "read_sql_query lib q d =
     (case q of
        SelectStar name w ob l \<Rightarrow>
          (d, case lookup_table d name of
                None \<Rightarrow> Inl (NoSuchTable name)
              | Some t \<Rightarrow> select_star t w ob l)
      | SelectGrouped name keys aggs ob l \<Rightarrow>
          (d, case lookup_table d name of
                None \<Rightarrow> Inl (NoSuchTable name)
              | Some t \<Rightarrow> sql_grouped lib q t)
      | DropTable name \<Rightarrow>
          (case lookup_table d name of
             None \<Rightarrow> (d, Inl (NoSuchTable name))
           | Some t \<Rightarrow> (filter (\<lambda>(k, t). \<not> same_name k name) d, Inl NoResultSet))
      | Malformed \<Rightarrow> (d, Inl SyntaxError)
      | Spliced tpl month \<Rightarrow> sql_spliced lib tpl month d)"

definition query_data :: "library \<Rightarrow> stmt \<Rightarrow> db \<Rightarrow> db \<times> (exc + frame)" where
  "query_data lib query d = read_sql_query lib query d"

subsection \<open>SQL_QUERIES\<close>

text \<open>
  The keys of the dictionary \<^verbatim>\<open>SQL_QUERIES\<close>, in its order, and for each key its
  template: a function of what stands in the place of \<^verbatim>\<open>{table_name}\<close>.
\<close>

datatype query_name =
    Total_Amount_Spent_per_Category
  | Monthly_Spending_Breakdown
  | Top_5_Highest_Expenses
  | Cashback_Summary
  | Payment_Mode_Distribution
  | Spending_Trends_Over_Time
  | Category_Spending_Per_Payment_Mode
  | Average_Expense_by_Payment_Mode
  | Top_5_Categories_with_Highest_Cashback
  | Transactions_Above_500

fun SQL_QUERIES :: "query_name \<Rightarrow> string \<Rightarrow> stmt" where
  "SQL_QUERIES Total_Amount_Spent_per_Category tn =
     SelectGrouped tn [''Category''] [(Sum_of ''Amount_Paid'', ''Total_Spent'')] None None"
| "SQL_QUERIES Monthly_Spending_Breakdown tn =
     SelectGrouped tn [''Month''] [(Sum_of ''Amount_Paid'', ''Total_Spent'')] None None"
| "SQL_QUERIES Top_5_Highest_Expenses tn =
     SelectStar tn None (Some (''Amount_Paid'', True)) (Some 5)"
| "SQL_QUERIES Cashback_Summary tn =
     SelectGrouped tn [''Payment_Mode''] [(Sum_of ''Cashback'', ''Total_Cashback'')] None None"
| "SQL_QUERIES Payment_Mode_Distribution tn =
     SelectGrouped tn [''Payment_Mode'']
       [(Count_all, ''Transaction_Count''), (Sum_of ''Amount_Paid'', ''Total_Spent'')] None None"
| "SQL_QUERIES Spending_Trends_Over_Time tn =
     SelectGrouped tn [''Date''] [(Sum_of ''Amount_Paid'', ''Daily_Spent'')]
       (Some (''Date'', False)) None"
| "SQL_QUERIES Category_Spending_Per_Payment_Mode tn =
     SelectGrouped tn [''Category'', ''Payment_Mode'']
       [(Sum_of ''Amount_Paid'', ''Total_Spent'')] None None"
| "SQL_QUERIES Average_Expense_by_Payment_Mode tn =
     SelectGrouped tn [''Payment_Mode''] [(Avg_of ''Amount_Paid'', ''Avg_Spending'')] None None"
| "SQL_QUERIES Top_5_Categories_with_Highest_Cashback tn =
     SelectGrouped tn [''Category''] [(Sum_of ''Cashback'', ''Total_Cashback'')]
       (Some (''Total_Cashback'', True)) (Some 5)"
| "SQL_QUERIES Transactions_Above_500 tn =
     SelectStar tn (Some (''Amount_Paid'', 500)) (Some (''Amount_Paid'', True)) None"

subsection \<open>Pasting the month into SQL text\<close>

text \<open>
  The script builds its queries as text: \<^verbatim>\<open>f"SELECT * FROM expenses_{month}"\<close> and
  \<^verbatim>\<open>SQL_QUERIES[query_name].replace("{table_name}", f"expenses_{month}")\<close>. The month is
  whatever the user typed and is pasted in without quotes, so SQLite reads the text
  token by token. The table name it reads is \<^verbatim>\<open>expenses_\<close> followed by the longest run
  of letters, digits and underscores at the start of the month. Three cases are
  modelled:
  \<^item> nothing is left of the month: the text is the template over that name;
  \<^item> a space and then a digit are left: a number cannot follow a table name, and SQLite
    rejects the text;
  \<^item> a space and then one word of letters, digits and underscores are left, the word
    beginning with a letter and containing a digit (so that it is no SQL keyword): the
    word is an alias, and the text is the template over the name before the space.
  Every other text is \<open>Spliced\<close>.
\<close>

definition digit_char :: "char \<Rightarrow> bool" where
  "digit_char c = (48 \<le> (of_char c :: nat) \<and> (of_char c :: nat) \<le> 57)"

definition letter_char :: "char \<Rightarrow> bool" where
  "letter_char c =
     ((65 \<le> (of_char c :: nat) \<and> (of_char c :: nat) \<le> 90)
      \<or> (97 \<le> (of_char c :: nat) \<and> (of_char c :: nat) \<le> 122))"

definition ident_char :: "char \<Rightarrow> bool" where
  "ident_char c = (letter_char c \<or> digit_char c \<or> c = CHR ''_'')"

definition replace_table_name :: "(string \<Rightarrow> stmt) \<Rightarrow> string \<Rightarrow> stmt" where
  "replace_table_name tpl month =
     (let name = ''expenses_'' @ takeWhile ident_char month;
          rest = dropWhile ident_char month
      in case rest of
           [] \<Rightarrow> tpl name
         | c # cs \<Rightarrow>
             (case cs of
                [] \<Rightarrow> Spliced (tpl ''{table_name}'') month
              | c2 # cs2 \<Rightarrow>
                  if c = CHR '' '' \<and> digit_char c2 then Malformed
                  else if c = CHR '' '' \<and> letter_char c2 \<and> list_all ident_char cs2
                          \<and> list_ex digit_char cs2
                  then tpl name
                  else Spliced (tpl ''{table_name}'') month))"

section \<open>The Streamlit script\<close>

text \<open>
  Streamlit runs the script from top to bottom on every interaction. One run reads the
  widgets' current values, works on the catalogue and the random source, and shows a
  list of elements. An exception that no \<^verbatim>\<open>except\<close> clause of the script catches ends the
  run; it is recorded in \<open>res_uncaught\<close>.
\<close>

datatype menu_option =
    Generate_Data | View_Data | Visualize_Insights | Run_SQL_Query | Predefined_SQL_Queries

text \<open>
  The values of the widgets at the start of a run. \<open>ui_query\<close> is the content of the text
  area as SQLite reads it; \<open>ui_query_name\<close> is the entry chosen in the select box.
\<close>

record ui_input =
  ui_option :: menu_option
  ui_month :: string
  ui_n :: nat
  ui_button :: bool
  ui_query :: stmt
  ui_query_name :: query_name

record run_result =
  res_db :: db
  res_pos :: nat
  res_out :: "widget list"
  res_uncaught :: "exc option"

text \<open>\<open>str(e)\<close>; the wording stands for the library's own.\<close>

fun exc_text :: "exc \<Rightarrow> string" where
  "exc_text (NoSuchTable n) = ''no such table: '' @ n"
| "exc_text (NoSuchColumn c) = ''no such column: '' @ c"
| "exc_text (TableExists n) = ''table '' @ n @ '' already exists''"
| "exc_text SyntaxError = ''syntax error''"
| "exc_text NoResultSet = ''NoneType object is not iterable''"
| "exc_text (KeyError k) = k"
| "exc_text IndexError = ''index 0 is out of bounds for axis 0 with size 0''"
| "exc_text ValueError = ''invalid value''"


definition head :: "frame \<Rightarrow> frame" where
  "head f = f\<lparr> df_rows := take 5 (df_rows f) \<rparr>"

text \<open>Drawing a chart inside a \<^verbatim>\<open>try\<close> block: the elements so far, and the exception if any.\<close>

definition plot :: "library \<Rightarrow> widget \<Rightarrow> widget list \<Rightarrow> widget list \<times> exc option" where
  "plot lib w out =
     (case plot_raises lib w of Some e \<Rightarrow> (out, Some e) | None \<Rightarrow> (out @ [w], None))"

text \<open>The \<^verbatim>\<open>except Exception as e: st.error(...)\<close> clause that closes a \<^verbatim>\<open>try\<close> block.\<close>

definition except_error ::
  "(exc \<Rightarrow> string) \<Rightarrow> db \<times> widget list \<times> exc option \<Rightarrow> db \<times> widget list"
where
  "except_error msg r =
     (case r of
        (d, out, None) \<Rightarrow> (d, out)
      | (d, out, Some e) \<Rightarrow> (d, out @ [ErrorBox (msg e)]))"

text \<open>The bodies of the four \<^verbatim>\<open>try\<close> blocks, in the order of the script.\<close>

definition view_body ::
  "library \<Rightarrow> string \<Rightarrow> db \<Rightarrow> widget list \<Rightarrow> db \<times> widget list \<times> exc option"
where
  "view_body lib month d out =
     (case query_data lib
             (replace_table_name (\<lambda>tn. SelectStar tn None None None) month) d of
        (d', Inl e) \<Rightarrow> (d', out, Some e)
      | (d', Inr data) \<Rightarrow> (d', out @ [Dataframe data], None))"

definition visualize_body ::
  "library \<Rightarrow> string \<Rightarrow> db \<Rightarrow> widget list \<Rightarrow> db \<times> widget list \<times> exc option"
where
  "visualize_body lib month d out =
     (case query_data lib
             (replace_table_name
                (\<lambda>tn. SelectGrouped tn [''Category'']
                         [(Sum_of ''Amount_Paid'', ''Total_Spent'')] None None) month) d of
        (d', Inl e) \<Rightarrow> (d', out, Some e)
      | (d', Inr data) \<Rightarrow>
          if ''Category'' \<notin> set (df_columns data) then (d', out, Some (KeyError ''Category''))
          else
            (case plot lib (BarChart data ''Category'') out of
               (out2, Some e) \<Rightarrow> (d', out2, Some e)
             | (out2, None) \<Rightarrow>
                 (case column data ''Total_Spent'' of
                    None \<Rightarrow> (d', out2, Some (KeyError ''Total_Spent''))
                  | Some sizes \<Rightarrow>
                      (case column data ''Category'' of
                         None \<Rightarrow> (d', out2, Some (KeyError ''Category''))
                       | Some labels \<Rightarrow>
                           (case plot lib (PieChart sizes labels) out2 of
                              (out3, eo) \<Rightarrow> (d', out3, eo))))))"

definition run_sql_body ::
  "library \<Rightarrow> stmt \<Rightarrow> db \<Rightarrow> widget list \<Rightarrow> db \<times> widget list \<times> exc option"
where
  "run_sql_body lib query d out =
     (case query_data lib query d of
        (d', Inl e) \<Rightarrow> (d', out, Some e)
      | (d', Inr data) \<Rightarrow> (d', out @ [Dataframe data], None))"

definition predefined_body ::
  "library \<Rightarrow> query_name \<Rightarrow> string \<Rightarrow> db \<Rightarrow> widget list
     \<Rightarrow> db \<times> widget list \<times> exc option"
where
  "predefined_body lib qn month d out =
     (case query_data lib (replace_table_name (SQL_QUERIES qn) month) d of
        (d', Inl e) \<Rightarrow> (d', out, Some e)
      | (d', Inr data) \<Rightarrow>
          (let out1 = out @ [Dataframe data]
           in if qn \<in> {Spending_Trends_Over_Time} then
                (if ''Date'' \<notin> set (df_columns data) then (d', out1, Some (KeyError ''Date''))
                 else case plot lib (LineChart data ''Date'') out1 of
                        (out2, eo) \<Rightarrow> (d', out2, eo))
              else if qn \<in> {Total_Amount_Spent_per_Category, Payment_Mode_Distribution} then
                (case df_columns data of
                   [] \<Rightarrow> (d', out1, Some IndexError)
                 | c # cs \<Rightarrow>
                     (case plot lib (BarChart data c) out1 of
                        (out2, eo) \<Rightarrow> (d', out2, eo)))
              else (d', out1, None)))"

text \<open>
  The script. The \<^verbatim>\<open>if\<close>/\<^verbatim>\<open>elif\<close> chain on the menu option comes first; the call of
  \<^verbatim>\<open>init_db()\<close> in the last line is reached only if no exception has ended the run.
  The branch for \<open>Generate Data\<close> has no \<^verbatim>\<open>try\<close> block.
\<close>

definition finish :: "db \<Rightarrow> nat \<Rightarrow> widget list \<Rightarrow> run_result" where
  "finish d p out = \<lparr> res_db = init_db d, res_pos = p, res_out = out, res_uncaught = None \<rparr>"

definition run_script ::
  "faker \<Rightarrow> rng \<Rightarrow> library \<Rightarrow> ui_input \<Rightarrow> db \<Rightarrow> nat \<Rightarrow> run_result"
where
  "run_script fake g lib inp d p =
     (let out0 = [Title ''Advanced Expense Tracker'']; month = ui_month inp
      in case ui_option inp of
        Generate_Data \<Rightarrow>
          (let out1 = out0 @ [Subheader ''Generate Expense Data'']
           in if ui_button inp then
                (case generate_data fake g p month (ui_n inp) of
                   (data, p') \<Rightarrow>
                     (case load_data_to_db data month d of
                        Inl e \<Rightarrow>
                          \<lparr> res_db = d, res_pos = p', res_out = out1, res_uncaught = Some e \<rparr>
                      | Inr d' \<Rightarrow>
                          finish d' p'
                            (out1 @
                             [Success (''Data for '' @ month @
                                        '' generated and loaded into the database!''),
                              Dataframe (head data)])))
              else finish d p out1)
      | View_Data \<Rightarrow>
          (let out1 = out0 @ [Subheader ''View Expense Data'']
           in if ui_button inp then
                (case except_error
                        (\<lambda>e. ''Error: '' @ exc_text e @ ''. Make sure the table for '' @ month
                              @ '' exists.'')
                        (view_body lib month d out1) of
                   (d', out2) \<Rightarrow> finish d' p out2)
              else finish d p out1)
      | Visualize_Insights \<Rightarrow>
          (case except_error
                  (\<lambda>e. ''Error: '' @ exc_text e @ ''. Ensure data exists for '' @ month @ ''.'')
                  (visualize_body lib month d (out0 @ [Subheader ''Spending Insights''])) of
             (d', out2) \<Rightarrow> finish d' p out2)
      | Run_SQL_Query \<Rightarrow>
          (let out1 = out0 @ [Subheader ''Run Custom SQL Query'']
           in if ui_button inp then
                (case except_error (\<lambda>e. ''An error occurred: '' @ exc_text e)
                        (run_sql_body lib (ui_query inp) d out1) of
                   (d', out2) \<Rightarrow> finish d' p out2)
              else finish d p out1)
      | Predefined_SQL_Queries \<Rightarrow>
          (let out1 = out0 @ [Subheader ''Predefined SQL Queries'']
           in if ui_button inp then
                (case except_error
                        (\<lambda>e. ''Error: '' @ exc_text e @ ''. Ensure data exists for '' @ month
                              @ ''.'')
                        (predefined_body lib (ui_query_name inp) month d out1) of
                   (d', out2) \<Rightarrow> finish d' p out2)
              else finish d p out1))"

section \<open>Concrete inputs\<close>

text \<open>A fixed Faker, a fixed random source and a small catalogue, for the examples.\<close>

definition example_faker :: faker where
  "example_faker =
     \<lparr> date_this_year = (\<lambda>k. ''2024-03-09''), text30 = (\<lambda>k. ''Paid in full.'') \<rparr>"

definition example_rng :: rng where
  "example_rng = (\<lambda>i. 2 ^ 52 + i)"

definition example_row :: txn where
  "example_row =
     \<lparr> Date = ''2024-03-09'', Category = ''Food'', Payment_Mode = ''UPI'',
       Description = ''Lunch'', Amount_Paid = 120, Cashback = 5 / 2, Month = ''January'' \<rparr>"

definition example_store :: db where
  "example_store =
     [(''expenses_January'',
       \<lparr> tbl_columns = declared_columns,
         tbl_rows = [[Text ''2024-01-02'', Text ''Bills'', Text ''Cash'', Text ''Rent'',
                      Num 900, Num 0, Text ''January'']] \<rparr>)]"

definition example_library :: library where
  "example_library =
     \<lparr> sql_grouped = (\<lambda>q t. Inr \<lparr> df_columns = [], df_rows = [] \<rparr>),
       sql_spliced = (\<lambda>tpl month d. (d, Inl SyntaxError)),
       plot_raises = (\<lambda>w. None) \<rparr>"

definition example_may_table :: table where
  "example_may_table =
     \<lparr> tbl_columns = declared_columns,
       tbl_rows = map (\<lambda>a. txn_cells (example_row\<lparr> Amount_Paid := a, Month := ''May'' \<rparr>))
                    [100, 900, 300, 700, 500, 200] \<rparr>"

definition example_ledger :: db where
  "example_ledger = [(''expenses_May'', example_may_table)]"

definition example_dated_table :: table where
  "example_dated_table =
     \<lparr> tbl_columns = declared_columns,
       tbl_rows = map (\<lambda>a. txn_cells (example_row\<lparr> Amount_Paid := a, Month := ''January 2024'' \<rparr>))
                    [100, 900, 300, 700, 500, 200] \<rparr>"

definition example_dated_store :: db where
  "example_dated_store = [(''expenses_January 2024'', example_dated_table)]"





definition example_drop_input :: ui_input where
  "example_drop_input =
     \<lparr> ui_option = Run_SQL_Query, ui_month = ''January'', ui_n = 200, ui_button = True,
       ui_query = DropTable ''expenses_January'', ui_query_name = Top_5_Highest_Expenses \<rparr>"

(* DEFINITIONS END *)

section \<open>Properties of the generator\<close>

lemma random01_bounds: "0 \<le> random01 k \<and> random01 k < 1"
  by (simp add: random01_def)

lemma uniform_bounds: "a \<le> b \<Longrightarrow> a \<le> uniform a b k \<and> uniform a b k \<le> b"
proof -
  assume ab: "a \<le> b"
  have r: "0 \<le> random01 k" "random01 k \<le> 1" using random01_bounds [of k] by simp_all
  have "0 \<le> (b - a) * random01 k" using ab r by simp
  moreover have "(b - a) * random01 k \<le> (b - a) * 1"
    using ab r by (intro mult_left_mono) simp_all
  ultimately show ?thesis by (simp add: uniform_def)
qed

lemma round_half_even_bounds:
  assumes "of_int lo \<le> y" "y \<le> of_int hi"
  shows "lo \<le> round_half_even y \<and> round_half_even y \<le> hi"
proof -
  have f1: "lo \<le> \<lfloor>y\<rfloor>" using assms(1) by (simp add: le_floor_iff)
  have f2: "\<lfloor>y\<rfloor> \<le> hi" using assms(2) by (simp add: floor_le_iff)
  have up: "y - of_int \<lfloor>y\<rfloor> \<noteq> 0 \<Longrightarrow> \<lfloor>y\<rfloor> + 1 \<le> hi"
  proof -
    assume "y - of_int \<lfloor>y\<rfloor> \<noteq> 0"
    then have "of_int \<lfloor>y\<rfloor> < y" using of_int_floor_le [of y] by linarith
    then have "of_int \<lfloor>y\<rfloor> < (of_int hi :: real)" using assms(2) by linarith
    then have "\<lfloor>y\<rfloor> < hi" by simp
    then show ?thesis by simp
  qed
  show ?thesis
    unfolding round_half_even_def Let_def using f1 f2 up by auto
qed

lemma round2_bounds:
  assumes "of_int lo \<le> x" "x \<le> of_int hi"
  shows "of_int lo \<le> round2 x \<and> round2 x \<le> of_int hi"
proof -
  have "of_int (lo * 100) \<le> x * 100" "x * 100 \<le> of_int (hi * 100)"
    using assms by simp_all
  from round_half_even_bounds [OF this]
  have "lo * 100 \<le> round_half_even (x * 100)" "round_half_even (x * 100) \<le> hi * 100"
    by simp_all
  then have "(of_int (lo * 100) :: real) \<le> of_int (round_half_even (x * 100))"
     "(of_int (round_half_even (x * 100)) :: real) \<le> of_int (hi * 100)"
    by (simp_all only: of_int_le_iff)
  then show ?thesis by (simp add: round2_def)
qed

lemma make_row_amounts:
  "50 \<le> Amount_Paid (make_row fake g p month) \<and> Amount_Paid (make_row fake g p month) \<le> 1000
   \<and> 0 \<le> Cashback (make_row fake g p month) \<and> Cashback (make_row fake g p month) \<le> 50"
proof -
  have a: "of_int 50 \<le> uniform 50 1000 k \<and> uniform 50 1000 k \<le> of_int 1000" for k
    using uniform_bounds [of 50 1000 k] by simp
  have c: "of_int 0 \<le> uniform 0 50 k \<and> uniform 0 50 k \<le> of_int 50" for k
    using uniform_bounds [of 0 50 k] by simp
  have "of_int 50 \<le> round2 (uniform 50 1000 k) \<and> round2 (uniform 50 1000 k) \<le> of_int 1000" for k
    using round2_bounds a by blast
  moreover have "of_int 0 \<le> round2 (uniform 0 50 k) \<and> round2 (uniform 0 50 k) \<le> of_int 50" for k
    using round2_bounds c by blast
  ultimately show ?thesis by (simp add: make_row_def)
qed

lemma gen_rows_set:
  "r \<in> set (gen_rows fake g p month n) \<Longrightarrow> \<exists>q. r = make_row fake g q month"
  by (induction n arbitrary: p) auto

lemma length_gen_rows: "length (gen_rows fake g p month n) = n"
  by (induction n arbitrary: p) auto

lemma choice_mem: "xs \<noteq> [] \<Longrightarrow> choice xs k \<in> set xs"
  by (simp add: choice_def)

lemma make_row_labels:
  "Category (make_row fake g p month) \<in> set categories
   \<and> Payment_Mode (make_row fake g p month) \<in> set payment_modes
   \<and> Month (make_row fake g p month) = month"
proof -
  have "categories \<noteq> []" "payment_modes \<noteq> []"
    by (simp_all add: categories_def payment_modes_def)
  then show ?thesis by (simp add: make_row_def choice_mem)
qed

lemma example_batch:
  "df_rows (fst (generate_data example_faker example_rng 0 ''January'' 1)) =
     [[Text ''2024-03-09'', Text ''Travel'', Text ''Cash'', Text ''Paid in full.'',
       Num 525, Num 25, Text ''January'']]"
  by (simp add: generate_data_def DataFrame_def make_row_def txn_cells_def
      example_faker_def example_rng_def choice_def categories_def payment_modes_def
      round2_def uniform_def random01_def round_half_even_def Let_def)

text \<open>
  C1. Whatever the month label, the count \<open>n\<close> and the random source, every row of the
  frame returned by \<^verbatim>\<open>generate_data\<close> is the row of a record whose \<open>Amount_Paid\<close> lies
  in \<open>[50, 1000]\<close> and whose \<open>Cashback\<close> lies in \<open>[0, 50]\<close>.
\<close>

theorem generate_data_amount_ranges:
  "\<forall>row \<in> set (df_rows (fst (generate_data fake g p month n))).
     \<exists>r. row = txn_cells r
       \<and> 50 \<le> Amount_Paid r \<and> Amount_Paid r \<le> 1000
       \<and> 0 \<le> Cashback r \<and> Cashback r \<le> 50"
proof
  fix row
  assume "row \<in> set (df_rows (fst (generate_data fake g p month n)))"
  then obtain r where r: "r \<in> set (gen_rows fake g p month n)" and row: "row = txn_cells r"
    by (auto simp: generate_data_def DataFrame_def)
  from gen_rows_set [OF r] obtain q where "r = make_row fake g q month" ..
  with make_row_amounts [of fake g q month] row
  show "\<exists>r. row = txn_cells r
       \<and> 50 \<le> Amount_Paid r \<and> Amount_Paid r \<le> 1000
       \<and> 0 \<le> Cashback r \<and> Cashback r \<le> 50"
    by blast
qed

theorem generate_data_amount_ranges_witness:
  "[Text ''2024-03-09'', Text ''Travel'', Text ''Cash'', Text ''Paid in full.'',
    Num 525, Num 25, Text ''January'']
     \<in> set (df_rows (fst (generate_data example_faker example_rng 0 ''January'' 1)))
   \<and> (\<exists>r. [Text ''2024-03-09'', Text ''Travel'', Text ''Cash'', Text ''Paid in full.'',
             Num 525, Num 25, Text ''January''] = txn_cells r
         \<and> 50 \<le> Amount_Paid r \<and> Amount_Paid r \<le> 1000
         \<and> 0 \<le> Cashback r \<and> Cashback r \<le> 50)"
  using generate_data_amount_ranges [of example_faker example_rng 0 "''January''" 1]
  unfolding example_batch by simp


lemma example_batch_two:
  "df_rows (fst (generate_data example_faker example_rng 7 ''Smarch'' 1)) =
     [[Text ''2024-03-09'', Text ''Entertainment'', Text ''Wallet'', Text ''Paid in full.'',
       Num 525, Num 25, Text ''Smarch'']]"
  by (simp add: generate_data_def DataFrame_def make_row_def txn_cells_def
      example_faker_def example_rng_def choice_def categories_def payment_modes_def
      round2_def uniform_def random01_def round_half_even_def Let_def)

text \<open>
  C8. Whatever the month label and the count \<open>n\<close>, the frame returned by
  \<^verbatim>\<open>generate_data\<close> has exactly \<open>n\<close> rows; each is the row of a record whose
  \<open>Category\<close> is one of the ten labels, whose \<open>Payment_Mode\<close> is one of the six labels
  and whose \<open>Month\<close> is the given label. The call always returns (the function is
  total), and all it changes is the position of the random source, which advances by
  six draws per record; the database is neither an argument nor a result.
\<close>

theorem generate_data_shape:
  "length (df_rows (fst (generate_data fake g p month n))) = n
   \<and> (\<forall>row \<in> set (df_rows (fst (generate_data fake g p month n))).
        \<exists>r. row = txn_cells r
          \<and> Category r \<in> set categories
          \<and> Payment_Mode r \<in> set payment_modes
          \<and> Month r = month)
   \<and> length categories = 10 \<and> distinct categories
   \<and> length payment_modes = 6 \<and> distinct payment_modes
   \<and> snd (generate_data fake g p month n) = p + 6 * n"
proof -
  have len: "length (df_rows (fst (generate_data fake g p month n))) = n"
    by (simp add: generate_data_def DataFrame_def length_gen_rows)
  have rows: "\<exists>r. row = txn_cells r \<and> Category r \<in> set categories
                 \<and> Payment_Mode r \<in> set payment_modes \<and> Month r = month"
    if "row \<in> set (df_rows (fst (generate_data fake g p month n)))" for row
  proof -
    from that obtain r where r: "r \<in> set (gen_rows fake g p month n)"
      and row: "row = txn_cells r"
      by (auto simp: generate_data_def DataFrame_def)
    from gen_rows_set [OF r] obtain q where "r = make_row fake g q month" ..
    with make_row_labels [of fake g q month] row show ?thesis by blast
  qed
  have cats: "length categories = 10 \<and> distinct categories"
    by (simp add: categories_def)
  have pays: "length payment_modes = 6 \<and> distinct payment_modes"
    by (simp add: payment_modes_def)
  have pos: "snd (generate_data fake g p month n) = p + 6 * n"
    by (simp add: generate_data_def)
  from len rows cats pays pos show ?thesis by blast
qed

theorem generate_data_shape_witness:
  "[Text ''2024-03-09'', Text ''Entertainment'', Text ''Wallet'', Text ''Paid in full.'',
    Num 525, Num 25, Text ''Smarch'']
     \<in> set (df_rows (fst (generate_data example_faker example_rng 7 ''Smarch'' 1)))
   \<and> (\<exists>r. [Text ''2024-03-09'', Text ''Entertainment'', Text ''Wallet'',
             Text ''Paid in full.'', Num 525, Num 25, Text ''Smarch''] = txn_cells r
         \<and> Category r \<in> set categories
         \<and> Payment_Mode r \<in> set payment_modes
         \<and> Month r = ''Smarch'')
   \<and> snd (generate_data example_faker example_rng 7 ''Smarch'' 1) = 13"
  using generate_data_shape [of example_faker example_rng 7 "''Smarch''" 1]
  unfolding example_batch_two by simp


section \<open>Properties of the store\<close>



lemma lookup_table_append:
  "lookup_table (d @ [(n, t)]) x =
     (case lookup_table d x of
        Some y \<Rightarrow> Some y
      | None \<Rightarrow> if same_name n x then Some t else None)"
  by (induction d) auto




lemma lookup_create_other:
  "\<not> same_name other name \<Longrightarrow> create_table name cols d = Inr d' \<Longrightarrow>
     lookup_table d' other = lookup_table d other"
  by (auto simp: create_table_def lookup_table_append same_name_def
      split: if_splits option.splits)
















lemma init_db_fresh:
  "init_db [] =
     map (\<lambda>m. (''expenses_'' @ m, \<lparr> tbl_columns = declared_columns, tbl_rows = [] \<rparr>)) months"
  by (simp add: init_db_def months_def create_table_if_not_exists_def table_name_def
      same_name_def lower_char_def)






lemma lower_char_J: "lower_char (CHR ''J'') = CHR ''j''"
proof -
  have "char_of (of_char (CHR ''j'') :: nat) = CHR ''j''" by (rule char_of_char)
  then show ?thesis by (simp add: lower_char_def)
qed

lemma same_name_january: "same_name ''expenses_January'' ''expenses_january''"
  by (simp add: same_name_def lower_char_J) (simp add: lower_char_def)

lemma load_january_fails:
  assumes "rows \<noteq> []"
  shows "\<not> has_table (table_name ''january'') (init_db [])
       \<and> load_data_to_db (DataFrame rows) ''january'' (init_db []) =
           Inl (TableExists ''expenses_january'')"
proof -
  have nh: "\<not> has_table ''expenses_january'' (init_db [])"
    by (simp add: init_db_fresh months_def has_table_def)
  have lk: "lookup_table (init_db []) ''expenses_january'' =
              Some \<lparr> tbl_columns = declared_columns, tbl_rows = [] \<rparr>"
    by (simp add: init_db_fresh months_def same_name_january)
  show ?thesis
    using assms nh lk
    by (simp add: load_data_to_db_def to_sql_append_def create_table_def DataFrame_def
        table_name_def txn_keys_def)
qed



section \<open>Properties of the schema initializer\<close>



lemma lookup_create_keeps:
  "lookup_table d x = Some t \<Longrightarrow>
     lookup_table (create_table_if_not_exists n cols d) x = Some t"
  by (simp add: create_table_if_not_exists_def lookup_table_append split: option.splits)


lemma lookup_create_cases:
  "lookup_table (create_table_if_not_exists n cols d) x = None
   \<or> lookup_table (create_table_if_not_exists n cols d) x = lookup_table d x
   \<or> (lookup_table d x = None
       \<and> lookup_table (create_table_if_not_exists n cols d) x =
            Some \<lparr> tbl_columns = cols, tbl_rows = [] \<rparr>)"
  by (simp add: create_table_if_not_exists_def lookup_table_append split: option.splits)


lemma fold_create_keeps:
  "lookup_table d x = Some t \<Longrightarrow>
     lookup_table (fold (\<lambda>m. create_table_if_not_exists (table_name m) cols) ms d) x = Some t"
  by (induction ms arbitrary: d) (simp_all add: lookup_create_keeps)







lemma lookup_None_all:
  "lookup_table d n = None \<longleftrightarrow> (\<forall>(k, t) \<in> set d. \<not> same_name k n)"
  by (induction d) (auto split: if_splits)










section \<open>Properties of the queries\<close>

lemma takeWhile_all: "list_all P xs \<Longrightarrow> takeWhile P xs = xs \<and> dropWhile P xs = []"
  by (induction xs) simp_all

lemma replace_table_name_ident:
  "list_all ident_char month \<Longrightarrow> replace_table_name tpl month = tpl (table_name month)"
  by (simp add: replace_table_name_def takeWhile_all table_name_def)


lemma order_by_desc:
  assumes "col_index (same_name c) (df_columns f) = Some i"
  shows "\<exists>all. order_by (Some (c, True)) f = Inr (f\<lparr> df_rows := all \<rparr>)
           \<and> length all = length (df_rows f) \<and> set all = set (df_rows f)
           \<and> sorted_wrt (\<lambda>r s. cell_key (nth_cell s i) \<le> cell_key (nth_cell r i)) all"
proof -
  let ?k = "\<lambda>r. cell_key (nth_cell r i)"
  let ?all = "rev (sort_key ?k (df_rows f))"
  have "sorted (map ?k (sort_key ?k (df_rows f)))" by (rule sorted_sort_key)
  then have "sorted_wrt (\<lambda>r s. ?k r \<le> ?k s) (sort_key ?k (df_rows f))"
    by (simp add: sorted_map)
  then have "sorted_wrt (\<lambda>r s. ?k s \<le> ?k r) ?all"
    by (simp add: sorted_wrt_rev)
  moreover have "order_by (Some (c, True)) f = Inr (f\<lparr> df_rows := ?all \<rparr>)"
    using assms by (simp add: order_by_def)
  ultimately show ?thesis by auto
qed

text \<open>
  C4, as amended. For a month written with letters, digits and underscores only, the
  catalogue entry \<open>Top 5 Highest Expenses\<close>, run on that month when its table has the
  column \<open>Amount_Paid\<close> and holds at least five rows, returns a frame of exactly five
  rows in descending order of \<open>Amount_Paid\<close> (SQLite's order of values): the first five
  of the table's rows put in that order. The catalogue is not changed.
\<close>

theorem top_5_highest_expenses:
  assumes "lookup_table d (table_name month) = Some t"
    and "5 \<le> length (tbl_rows t)"
    and "col_index (same_name ''Amount_Paid'') (tbl_columns t) = Some i"
    and "list_all ident_char month"
  shows "\<exists>all. query_data lib (replace_table_name (SQL_QUERIES Top_5_Highest_Expenses) month) d =
                 (d, Inr \<lparr> df_columns = tbl_columns t, df_rows = take 5 all \<rparr>)
           \<and> length (take 5 all) = 5
           \<and> sorted_wrt (\<lambda>r s. cell_key (nth_cell s i) \<le> cell_key (nth_cell r i)) (take 5 all)
           \<and> sorted_wrt (\<lambda>r s. cell_key (nth_cell s i) \<le> cell_key (nth_cell r i)) all
           \<and> length all = length (tbl_rows t) \<and> set all = set (tbl_rows t)"
proof -
  let ?f = "\<lparr> df_columns = tbl_columns t, df_rows = tbl_rows t \<rparr>"
  from order_by_desc [of "''Amount_Paid''" ?f i] assms(3)
  obtain all where ob: "order_by (Some (''Amount_Paid'', True)) ?f = Inr (?f\<lparr> df_rows := all \<rparr>)"
    and len: "length all = length (tbl_rows t)" and st: "set all = set (tbl_rows t)"
    and srt: "sorted_wrt (\<lambda>r s. cell_key (nth_cell s i) \<le> cell_key (nth_cell r i)) all"
    by auto
  have q: "query_data lib (replace_table_name (SQL_QUERIES Top_5_Highest_Expenses) month) d =
             (d, Inr \<lparr> df_columns = tbl_columns t, df_rows = take 5 all \<rparr>)"
    using assms(1) ob
    by (simp add: replace_table_name_ident [OF assms(4)] query_data_def read_sql_query_def
        select_star_def where_gt_def limit_def)
  have "length (take 5 all) = 5" using len assms(2) by simp
  moreover have "sorted_wrt (\<lambda>r s. cell_key (nth_cell s i) \<le> cell_key (nth_cell r i)) (take 5 all)"
    using srt by (rule sorted_wrt_take)
  ultimately show ?thesis using q srt len st by blast
qed


lemma example_top_5:
  "map (\<lambda>r. nth_cell r 4)
     (case snd (query_data example_library
                  (SQL_QUERIES Top_5_Highest_Expenses (table_name ''May'')) example_ledger) of
        Inr f \<Rightarrow> df_rows f | Inl e \<Rightarrow> []) =
   [Num 900, Num 700, Num 500, Num 300, Num 200]"
  by (simp add: query_data_def read_sql_query_def select_star_def where_gt_def limit_def
      order_by_def example_ledger_def example_may_table_def table_name_def
      declared_columns_def same_name_def
      lower_char_def txn_cells_def example_row_def nth_cell_def Let_def)

theorem top_5_highest_expenses_witness:
  "lookup_table example_ledger (table_name ''May'') = Some example_may_table
   \<and> 5 \<le> length (tbl_rows example_may_table)
   \<and> col_index (same_name ''Amount_Paid'') (tbl_columns example_may_table) = Some 4
   \<and> list_all ident_char ''May''
   \<and> (\<exists>all. query_data example_library
                (replace_table_name (SQL_QUERIES Top_5_Highest_Expenses) ''May'') example_ledger =
                 (example_ledger,
                  Inr \<lparr> df_columns = tbl_columns example_may_table, df_rows = take 5 all \<rparr>)
           \<and> length (take 5 all) = 5
           \<and> sorted_wrt (\<lambda>r s. cell_key (nth_cell s 4) \<le> cell_key (nth_cell r 4)) (take 5 all))"
proof -
  have h1: "lookup_table example_ledger (table_name ''May'') = Some example_may_table"
    by (simp add: example_ledger_def table_name_def same_name_def)
  have h2: "5 \<le> length (tbl_rows example_may_table)"
    by (simp add: example_may_table_def)
  have h3: "col_index (same_name ''Amount_Paid'') (tbl_columns example_may_table) = Some 4"
    by (simp add: example_may_table_def declared_columns_def same_name_def lower_char_def)
  have h4: "list_all ident_char ''May''"
    by (simp add: ident_char_def letter_char_def)
  from top_5_highest_expenses [OF h1 h2 h3 h4, of example_library] h1 h2 h3 h4
  show ?thesis by blast
qed

text \<open>
  The claim C4 as first stated fails for the month \<open>January 2024\<close>: Generate Data files
  its records in the table \<^verbatim>\<open>expenses_January 2024\<close> (pandas quotes the name), but the
  query text reads \<^verbatim>\<open>FROM expenses_January 2024 ORDER BY ...\<close>, which SQLite rejects.
\<close>

theorem top_5_highest_expenses_counterexample:
  "lookup_table example_dated_store (table_name ''January 2024'') = Some example_dated_table
   \<and> 5 \<le> length (tbl_rows example_dated_table)
   \<and> query_data example_library
        (replace_table_name (SQL_QUERIES Top_5_Highest_Expenses) ''January 2024'')
        example_dated_store = (example_dated_store, Inl SyntaxError)"
proof -
  have r: "replace_table_name tpl ''January 2024'' = Malformed" for tpl
    by (simp add: replace_table_name_def ident_char_def letter_char_def digit_char_def)
  show ?thesis
    by (simp add: r query_data_def read_sql_query_def example_dated_store_def
        table_name_def same_name_def example_dated_table_def)
qed

section \<open>Properties of the script\<close>


















lemma gen_rows_nonempty: "0 < n \<Longrightarrow> gen_rows fake g p month n \<noteq> []"
  using length_gen_rows [of fake g p month n] by auto










text \<open>
  C7. The branch for Generate Data has no \<^verbatim>\<open>try\<close> block, unlike the other four. In the
  store that \<^verbatim>\<open>init_db\<close> leaves behind, Generate Data for the month \<open>january\<close> makes
  \<^verbatim>\<open>load_data_to_db\<close> raise; the exception leaves the script, no error message is among
  the elements shown by the script, and the last line, \<^verbatim>\<open>init_db()\<close>, is not reached.
\<close>

theorem generate_failure_escapes:
  "run_script fake g lib
     \<lparr> ui_option = Generate_Data, ui_month = ''january'', ui_n = 50, ui_button = True,
       ui_query = q, ui_query_name = qn \<rparr> (init_db []) p =
     \<lparr> res_db = init_db [], res_pos = p + 300,
       res_out = [Title ''Advanced Expense Tracker'', Subheader ''Generate Expense Data''],
       res_uncaught = Some (TableExists ''expenses_january'') \<rparr>"
proof -
  have ne: "gen_rows fake g p ''january'' 50 \<noteq> []" by (rule gen_rows_nonempty) simp
  from load_january_fails [OF ne] show ?thesis
    by (simp add: run_script_def generate_data_def Let_def)
qed

lemma lookup_after_drop:
  "lookup_table (filter (\<lambda>(k, t). \<not> same_name k name) d) name = None"
  by (simp add: lookup_None_all)

lemma fold_create_none_or_empty:
  "lookup_table d x = None \<Longrightarrow>
     lookup_table (fold (\<lambda>m. create_table_if_not_exists (table_name m) cols) ms d) x = None
     \<or> lookup_table (fold (\<lambda>m. create_table_if_not_exists (table_name m) cols) ms d) x =
         Some \<lparr> tbl_columns = cols, tbl_rows = [] \<rparr>"
proof (induction ms arbitrary: d)
  case Nil
  then show ?case by simp
next
  case (Cons a ms)
  let ?d1 = "create_table_if_not_exists (table_name a) cols d"
  from lookup_create_cases [of "table_name a" cols d x] Cons.prems
  consider (none) "lookup_table ?d1 x = None"
    | (made) "lookup_table ?d1 x = Some \<lparr> tbl_columns = cols, tbl_rows = [] \<rparr>"
    by auto
  then show ?case
  proof cases
    case none
    from Cons.IH [OF none] show ?thesis by simp
  next
    case made
    from fold_create_keeps [OF made] show ?thesis by simp
  qed
qed

lemma row_count_init_db_absent:
  "lookup_table d x = None \<Longrightarrow> row_count (init_db d) x = 0"
  using fold_create_none_or_empty [of d x declared_columns months]
  by (auto simp: row_count_def init_db_def)

text \<open>
  C9. \<^verbatim>\<open>query_data\<close> is not read-only. For a table that exists, the statement
  \<^verbatim>\<open>DROP TABLE\<close> passed to it removes the table from the store, and the store after the
  call differs from the store before. Through Run SQL Query the same happens: the run
  ends normally with an error message, and afterwards the dropped table has no rows
  (when it is a month's table, \<^verbatim>\<open>init_db\<close> has created it anew, empty).
\<close>

theorem custom_query_changes_store:
  assumes "lookup_table d name = Some t"
    and "ui_option inp = Run_SQL_Query" "ui_button inp" "ui_query inp = DropTable name"
  shows "fst (query_data lib (DropTable name) d) \<noteq> d
       \<and> lookup_table (fst (query_data lib (DropTable name) d)) name = None
       \<and> res_db (run_script fake g lib inp d p) =
            init_db (filter (\<lambda>(k, t). \<not> same_name k name) d)
       \<and> row_count (res_db (run_script fake g lib inp d p)) name = 0
       \<and> res_uncaught (run_script fake g lib inp d p) = None"
proof -
  let ?d' = "filter (\<lambda>(k, t). \<not> same_name k name) d"
  have q: "query_data lib (DropTable name) d = (?d', Inl NoResultSet)"
    using assms(1) by (simp add: query_data_def read_sql_query_def)
  have gone: "lookup_table ?d' name = None" by (rule lookup_after_drop)
  with assms(1) have ne: "?d' \<noteq> d" by auto
  have run: "run_script fake g lib inp d p =
               \<lparr> res_db = init_db ?d', res_pos = p,
                 res_out = [Title ''Advanced Expense Tracker'',
                            Subheader ''Run Custom SQL Query'',
                            ErrorBox (''An error occurred: '' @ exc_text NoResultSet)],
                 res_uncaught = None \<rparr>"
    using assms(2-4) q
    by (simp add: run_script_def run_sql_body_def except_error_def finish_def Let_def)
  from q gone ne run row_count_init_db_absent [OF gone] show ?thesis by simp
qed

theorem custom_query_changes_store_witness:
  "lookup_table example_store ''expenses_January'' \<noteq> None
   \<and> ui_option example_drop_input = Run_SQL_Query \<and> ui_button example_drop_input
   \<and> ui_query example_drop_input = DropTable ''expenses_January''
   \<and> row_count example_store ''expenses_January'' = 1
   \<and> fst (query_data example_library (DropTable ''expenses_January'') example_store)
        \<noteq> example_store
   \<and> row_count (res_db (run_script example_faker example_rng example_library
                          example_drop_input example_store 0)) ''expenses_January'' = 0"
proof -
  obtain t where l: "lookup_table example_store ''expenses_January'' = Some t"
    by (simp add: example_store_def same_name_def)
  have i: "ui_option example_drop_input = Run_SQL_Query" "ui_button example_drop_input"
    "ui_query example_drop_input = DropTable ''expenses_January''"
    by (simp_all add: example_drop_input_def)
  have c: "row_count example_store ''expenses_January'' = 1"
    by (simp add: row_count_def example_store_def same_name_def)
  note inst = custom_query_changes_store [OF l i, of example_library example_faker example_rng 0]
  have a: "fst (query_data example_library (DropTable ''expenses_January'') example_store)
        \<noteq> example_store" using inst by blast
  have b: "row_count (res_db (run_script example_faker example_rng example_library
                          example_drop_input example_store 0)) ''expenses_January'' = 0"
    using inst by blast
  from l i c a b show ?thesis by simp
qed

end
